theory Spec2Isabelle
  imports Main "HOL-Library.Word"
begin

unbundle bit_operations_syntax

section \<open>Values exchanged with the master\<close>

type_synonym uint8 = "8 word"
type_synonym uint32 = "32 word"
type_synonym uint64 = "64 word"

text \<open>
  Go's \<open>error\<close> values that the volume commands can hold: an error returned by a remote
  call (its message), the \<open>*strconv.NumError\<close> of \<open>strconv.ParseBool\<close> (function name
  and offending input, the cause is always \<open>strconv.ErrSyntax\<close>), and an error made by
  \<open>fmt.Errorf\<close> (its message).
\<close>

datatype error = RemoteError string | NumError string string | Errorf string

text \<open>
  \<open>proto.SimpleVolView\<close>, \<open>proto.UserInfo\<close> and \<open>proto.UserTransferVolParam\<close> are declared
  outside the given files; the records carry the fields that \<open>vol.go\<close> reads or writes.
\<close>

record SimpleVolView =
  Name :: string
  Owner :: string
  Capacity :: uint64
  DpReplicaNum :: uint8
  FollowerRead :: bool
  Authenticate :: bool
  EnableToken :: bool
  AutoRepair :: bool
  ZoneName :: string
  Status :: uint8

record UserInfo =
  UserID :: string

record UserTransferVolParam =
  Volume :: string
  UserSrc :: string
  UserDst :: string
  Force :: bool

text \<open>The positional arguments of \<open>AdminAPI().CreateVolume\<close> and \<open>AdminAPI().UpdateVolume\<close>.\<close>

record CreateVolumeArgs =
  cv_volName :: string
  cv_owner :: string
  cv_mpCount :: int
  cv_dpSize :: uint64
  cv_capacity :: uint64
  cv_replicas :: int
  cv_followerRead :: bool
  cv_autoRepair :: bool
  cv_zoneName :: string

record UpdateVolumeArgs =
  uv_volName :: string
  uv_capacity :: uint64
  uv_replicas :: int
  uv_followerRead :: bool
  uv_authenticate :: bool
  uv_enableToken :: bool
  uv_autoRepair :: bool
  uv_authKey :: string
  uv_zoneName :: string

section \<open>The authorization key: \<open>calcAuthKey\<close>\<close>

text \<open>
  \<open>calcAuthKey\<close> hashes the bytes of its argument with \<open>crypto/md5\<close>, renders the digest
  with \<open>hex.EncodeToString\<close> and lower-cases it. The three library functions are written
  out: MD5 as in RFC 1321 (what \<open>md5.New\<close>, \<open>Write\<close> and \<open>Sum(nil)\<close> compute for a single
  write), the hex encoder over the table \<open>0123456789abcdef\<close>, and \<open>strings.ToLower\<close> on
  ASCII letters (the hex text has no other letters).
\<close>

definition md5_shift :: "nat list" where
  "md5_shift =
    [7, 12, 17, 22, 7, 12, 17, 22, 7, 12, 17, 22, 7, 12, 17, 22,
     5, 9, 14, 20, 5, 9, 14, 20, 5, 9, 14, 20, 5, 9, 14, 20,
     4, 11, 16, 23, 4, 11, 16, 23, 4, 11, 16, 23, 4, 11, 16, 23,
     6, 10, 15, 21, 6, 10, 15, 21, 6, 10, 15, 21, 6, 10, 15, 21]"

definition md5_sine :: "uint32 list" where
  "md5_sine =
    [0xd76aa478, 0xe8c7b756, 0x242070db, 0xc1bdceee,
     0xf57c0faf, 0x4787c62a, 0xa8304613, 0xfd469501,
     0x698098d8, 0x8b44f7af, 0xffff5bb1, 0x895cd7be,
     0x6b901122, 0xfd987193, 0xa679438e, 0x49b40821,
     0xf61e2562, 0xc040b340, 0x265e5a51, 0xe9b6c7aa,
     0xd62f105d, 0x02441453, 0xd8a1e681, 0xe7d3fbc8,
     0x21e1cde6, 0xc33707d6, 0xf4d50d87, 0x455a14ed,
     0xa9e3e905, 0xfcefa3f8, 0x676f02d9, 0x8d2a4c8a,
     0xfffa3942, 0x8771f681, 0x6d9d6122, 0xfde5380c,
     0xa4beea44, 0x4bdecfa9, 0xf6bb4b60, 0xbebfbc70,
     0x289b7ec6, 0xeaa127fa, 0xd4ef3085, 0x04881d05,
     0xd9d4d039, 0xe6db99e5, 0x1fa27cf8, 0xc4ac5665,
     0xf4292244, 0x432aff97, 0xab9423a7, 0xfc93a039,
     0x655b59c3, 0x8f0ccc92, 0xffeff47d, 0x85845dd1,
     0x6fa87e4f, 0xfe2ce6e0, 0xa3014314, 0x4e0811a1,
     0xf7537e82, 0xbd3af235, 0x2ad7d2bb, 0xeb86d391]"

definition rotl32 :: "uint32 \<Rightarrow> nat \<Rightarrow> uint32" where
  "rotl32 x n = push_bit n x OR drop_bit (32 - n) x"

definition le_word32 :: "uint8 list \<Rightarrow> uint32" where
  "le_word32 bs = foldr (\<lambda>b w. push_bit 8 w OR ucast b) bs 0"

definition le_bytes :: "nat \<Rightarrow> 'a::len word \<Rightarrow> uint8 list" where
  "le_bytes k w = map (\<lambda>i. ucast (drop_bit (8 * i) w)) [0..<k]"

definition md5_pad :: "uint8 list \<Rightarrow> uint8 list" where
  "md5_pad m =
    m @ [0x80] @ replicate ((119 - length m mod 64) mod 64) 0
      @ le_bytes 8 (8 * of_nat (length m) :: uint64)"

definition md5_step :: "uint32 list \<Rightarrow> nat \<Rightarrow>
    uint32 \<times> uint32 \<times> uint32 \<times> uint32 \<Rightarrow> uint32 \<times> uint32 \<times> uint32 \<times> uint32" where
  "md5_step M i st =
    (case st of (a, b, c, d) \<Rightarrow>
      (let f = (if i < 16 then (b AND c) OR (NOT b AND d)
                else if i < 32 then (d AND b) OR (NOT d AND c)
                else if i < 48 then b XOR c XOR d
                else c XOR (b OR NOT d));
           g = (if i < 16 then i
                else if i < 32 then (5 * i + 1) mod 16
                else if i < 48 then (3 * i + 5) mod 16
                else (7 * i) mod 16);
           x = f + a + md5_sine ! i + M ! g
       in (d, b + rotl32 x (md5_shift ! i), b, c)))"

definition md5_block :: "uint32 \<times> uint32 \<times> uint32 \<times> uint32 \<Rightarrow> uint8 list \<Rightarrow>
    uint32 \<times> uint32 \<times> uint32 \<times> uint32" where
  "md5_block st blk =
    (let M = map (\<lambda>j. le_word32 (take 4 (drop (4 * j) blk))) [0..<16] in
     case (st, fold (md5_step M) [0..<64] st) of
       ((a, b, c, d), (a', b', c', d')) \<Rightarrow> (a + a', b + b', c + c', d + d'))"

definition md5_Sum :: "uint8 list \<Rightarrow> uint8 list" where
  "md5_Sum m =
    (let p = md5_pad m;
         blocks = map (\<lambda>k. take 64 (drop (64 * k) p)) [0..<length p div 64]
     in case fold (\<lambda>blk st. md5_block st blk) blocks
               (0x67452301, 0xefcdab89, 0x98badcfe, 0x10325476) of
          (a, b, c, d) \<Rightarrow> concat (map (le_bytes 4) [a, b, c, d]))"

definition hextable :: string where
  "hextable = ''0123456789abcdef''"

definition EncodeToString :: "uint8 list \<Rightarrow> string" where
  "EncodeToString src =
    concat (map (\<lambda>v. [hextable ! unat (drop_bit 4 v), hextable ! unat (v AND 0x0f)]) src)"

definition ToLower :: "string \<Rightarrow> string" where
  "ToLower s =
    map (\<lambda>c. if of_char CHR ''A'' \<le> (of_char c :: nat) \<and> (of_char c :: nat) \<le> of_char CHR ''Z''
               then char_of (of_char c + (32::nat)) else c) s"

definition bytes_of :: "string \<Rightarrow> uint8 list" where
  "bytes_of s = map (\<lambda>c. of_nat (of_char c)) s"

definition calcAuthKey :: "string \<Rightarrow> string" where
  "calcAuthKey key = ToLower (EncodeToString (md5_Sum (bytes_of key)))"

section \<open>The volume commands of the client (\<open>cli/cmd/vol.go\<close>)\<close>

subsection \<open>What a command does: its trace of effects\<close>

text \<open>
  Every command is a straight line of synchronous effects: writes to standard output
  (\<open>stdout\<close>), reports through \<open>errout\<close>, one \<open>fmt.Scanln\<close> for the confirmation, and
  calls to the master. A run is the list of these effects in program order, together
  with how the run ended, the final value of the variable \<open>err\<close> and the final value of
  the snapshot variable (\<open>vv\<close>, \<open>svv\<close>, \<open>volSimpleView\<close>). \<open>stdout\<close> and \<open>errout\<close> carry the
  format string and its arguments as the call gives them.
\<close>

datatype arg = AString string | AUint64 uint64 | AInt int | AError error

datatype event =
    Stdout string "arg list"
  | Errout string "arg list"
  | Scanln
  | CallGetVolumeSimpleInfo string
  | CallCreateVolume CreateVolumeArgs
  | CallUpdateVolume UpdateVolumeArgs
  | CallDeleteVolume string string
  | CallGetUserInfo string
  | CallTransferVol UserTransferVolParam

datatype status = Returned | Exited int | Panicked

record outcome =
  trace :: "event list"
  status :: status
  err :: "error option"
  working :: "SimpleVolView option"

text \<open>
  The surroundings of a command. The six functions are the calls of
  \<open>client.AdminAPI()\<close> and \<open>client.UserAPI()\<close> that \<open>vol.go\<close> makes; a Go call returning
  \<open>(pointer, error)\<close> returns a pair whose first component is \<open>None\<close> for \<open>nil\<close>. Each
  command makes each call at most once, so a function of the arguments describes the
  master's answer. \<open>formatEnabledDisabled\<close> and \<open>errout\<close> are helpers of package \<open>cmd\<close>
  outside the given files: the first is taken as it comes, and \<open>errout_exits\<close> says
  whether \<open>errout\<close> ends the process (with code 1) after printing.
\<close>

record env =
  GetVolumeSimpleInfo :: "string \<Rightarrow> SimpleVolView option \<times> error option"
  CreateVolume :: "CreateVolumeArgs \<Rightarrow> error option"
  UpdateVolume :: "UpdateVolumeArgs \<Rightarrow> error option"
  DeleteVolume :: "string \<Rightarrow> string \<Rightarrow> error option"
  GetUserInfo :: "string \<Rightarrow> UserInfo option \<times> error option"
  TransferVol :: "UserTransferVolParam \<Rightarrow> error option"
  formatEnabledDisabled :: "bool \<Rightarrow> string"
  errout_exits :: bool

text \<open>
  \<open>errout\<close> in the middle of a command: the report is appended, and the command goes on
  with \<open>k\<close> only when \<open>errout\<close> comes back.
\<close>

definition errout :: "env \<Rightarrow> string \<Rightarrow> arg list \<Rightarrow> error option \<Rightarrow> SimpleVolView option \<Rightarrow>
    event list \<Rightarrow> (event list \<Rightarrow> outcome) \<Rightarrow> outcome" where
  "errout e fmt as er w t k =
    (if errout_exits e
     then \<lparr>trace = t @ [Errout fmt as], status = Exited 1, err = er, working = w\<rparr>
     else k (t @ [Errout fmt as]))"

text \<open>
  The deferred function of \<open>Set\<close> and \<open>Transfer\<close>: when the command returns with \<open>err\<close>
  set, \<open>errout\<close> reports it.
\<close>

definition deferred :: "env \<Rightarrow> string \<Rightarrow> (error \<Rightarrow> arg list) \<Rightarrow> error option \<Rightarrow>
    SimpleVolView option \<Rightarrow> event list \<Rightarrow> outcome" where
  "deferred e fmt as er w t =
    (case er of
       None \<Rightarrow> \<lparr>trace = t, status = Returned, err = None, working = w\<rparr>
     | Some x \<Rightarrow>
        \<lparr>trace = t @ [Errout fmt (as x)],
         status = (if errout_exits e then Exited 1 else Returned),
         err = Some x, working = w\<rparr>)"

text \<open>Which effects are remote calls, and which of them change the cluster.\<close>

fun is_remote :: "event \<Rightarrow> bool" where
  "is_remote (Stdout _ _) = False"
| "is_remote (Errout _ _) = False"
| "is_remote Scanln = False"
| "is_remote _ = True"

fun is_fetch :: "event \<Rightarrow> bool" where
  "is_fetch (CallGetVolumeSimpleInfo _) = True"
| "is_fetch _ = False"

fun is_confirm :: "event \<Rightarrow> bool" where
  "is_confirm Scanln = True"
| "is_confirm _ = False"

fun is_apply :: "event \<Rightarrow> bool" where
  "is_apply (CallCreateVolume _) = True"
| "is_apply (CallUpdateVolume _) = True"
| "is_apply (CallDeleteVolume _ _) = True"
| "is_apply (CallTransferVol _) = True"
| "is_apply _ = False"

text \<open>
  \<open>after_first P Q t\<close>: in the trace \<open>t\<close> no \<open>Q\<close> effect stands before the first \<open>P\<close>
  effect (and none at all when there is no \<open>P\<close> effect). \<open>remote_calls\<close> keeps the
  remote calls of a trace, in order.
\<close>

fun after_first :: "('a \<Rightarrow> bool) \<Rightarrow> ('a \<Rightarrow> bool) \<Rightarrow> 'a list \<Rightarrow> bool" where
  "after_first P Q [] = True"
| "after_first P Q (x # xs) = (if P x then True else (\<not> Q x \<and> after_first P Q xs))"

definition remote_calls :: "event list \<Rightarrow> event list" where
  "remote_calls t = filter is_remote t"

subsection \<open>\<open>volume delete\<close>\<close>

definition delete_apply :: "env \<Rightarrow> string \<Rightarrow> SimpleVolView option \<Rightarrow> error option \<Rightarrow>
    event list \<Rightarrow> outcome" where
  "delete_apply e volumeName svv er0 t =
    (case svv of
       None \<Rightarrow> \<lparr>trace = t, status = Panicked, err = er0, working = svv\<rparr>
     | Some v \<Rightarrow>
        (let t' = t @ [CallDeleteVolume volumeName (calcAuthKey (Owner v))];
             er = DeleteVolume e volumeName (calcAuthKey (Owner v));
             done = (\<lambda>t. \<lparr>trace = t @ [Stdout ''Delete volume success.\<newline>'' []],
                           status = Returned, err = er, working = svv\<rparr>)
         in case er of
              Some x \<Rightarrow> errout e ''Delete volume failed:\<newline>%v\<newline>'' [AError x] er svv t' done
            | None \<Rightarrow> done t'))"

text \<open>
  \<open>userConfirm\<close> is the content of the variable of that name after \<open>fmt.Scanln\<close> (the
  empty string when nothing was scanned); it is read only when \<open>optYes\<close> is off.
  \<open>volumeName\<close> is \<open>args[0]\<close>. When the snapshot cannot be fetched and \<open>errout\<close> comes
  back, the command goes on to \<open>svv.Owner\<close>, which panics on a \<open>nil\<close> snapshot.
\<close>

definition volDelete :: "env \<Rightarrow> bool \<Rightarrow> string \<Rightarrow> string \<Rightarrow> outcome" where
  "volDelete e optYes userConfirm volumeName =
    (let t0 = (if \<not> optYes
               then [Stdout ''Delete volume [%v] (yes/no)[no]:'' [AString volumeName], Scanln]
               else [])
     in if \<not> optYes \<and> userConfirm \<noteq> ''yes''
        then \<lparr>trace = t0 @ [Stdout ''Abort by user.\<newline>'' []],
              status = Returned, err = None, working = None\<rparr>
        else
          (case GetVolumeSimpleInfo e volumeName of
             (svv, er) \<Rightarrow>
               (let t1 = t0 @ [CallGetVolumeSimpleInfo volumeName]
                in case er of
                     Some x \<Rightarrow>
                       errout e ''Delete volume failed:\<newline>%v\<newline>'' [AError x] er svv t1
                         (delete_apply e volumeName svv er)
                   | None \<Rightarrow> delete_apply e volumeName svv er t1)))"

subsection \<open>\<open>volume transfer\<close>\<close>

definition transfer_report :: "string \<Rightarrow> string \<Rightarrow> error \<Rightarrow> arg list" where
  "transfer_report volume userID x = [AString volume, AString userID, AError x]"

definition volTransfer :: "env \<Rightarrow> bool \<Rightarrow> bool \<Rightarrow> string \<Rightarrow> string \<Rightarrow> string \<Rightarrow> outcome" where
  "volTransfer e optYes optForce confirm volume userID =
    (let t0 = (if \<not> optYes
               then [Stdout ''Transfer volume [%v] to user [%v] (yes/no)[no]:''
                       [AString volume, AString userID], Scanln]
               else []);
         dfr = deferred e ''Transfer volume [%v] to user [%v] failed: %v\<newline>''
                 (transfer_report volume userID)
     in if \<not> optYes \<and> confirm \<noteq> ''yes''
        then dfr None None (t0 @ [Stdout ''Abort by user.\<newline>'' []])
        else
          (case GetVolumeSimpleInfo e volume of
             (volSimpleView, er) \<Rightarrow>
               (let t1 = t0 @ [CallGetVolumeSimpleInfo volume]
                in case er of
                     Some x \<Rightarrow> dfr (Some x) volSimpleView t1
                   | None \<Rightarrow>
                      (case volSimpleView of
                         None \<Rightarrow> \<lparr>trace = t1, status = Panicked, err = None, working = None\<rparr>
                       | Some v \<Rightarrow>
                          if Status v \<noteq> 0
                          then dfr (Some (Errorf ''volume status abnormal'')) volSimpleView t1
                          else
                            (case GetUserInfo e userID of
                               (userInfo, er2) \<Rightarrow>
                                 (let t2 = t1 @ [CallGetUserInfo userID]
                                  in case er2 of
                                       Some x \<Rightarrow> dfr (Some x) volSimpleView t2
                                     | None \<Rightarrow>
                                        (case userInfo of
                                           None \<Rightarrow> \<lparr>trace = t2, status = Panicked, err = None,
                                                     working = volSimpleView\<rparr>
                                         | Some u \<Rightarrow>
                                            (let param = \<lparr>Volume = volume, UserSrc = Owner v,
                                                           UserDst = UserID u, Force = optForce\<rparr>
                                             in dfr (TransferVol e param) volSimpleView
                                                  (t2 @ [CallTransferVol param])))))))))"

subsection \<open>\<open>volume create\<close>\<close>

definition cmdVolDefaultMPCount :: int where "cmdVolDefaultMPCount = 3"
definition cmdVolDefaultDPSize :: uint64 where "cmdVolDefaultDPSize = 120"
definition cmdVolDefaultCapacity :: uint64 where "cmdVolDefaultCapacity = 10"
definition cmdVolDefaultReplicas :: int where "cmdVolDefaultReplicas = 3"
definition cmdVolDefaultFollowerReader :: bool where "cmdVolDefaultFollowerReader = True"
definition cmdVolDefaultZoneName :: string where "cmdVolDefaultZoneName = ''default''"

text \<open>
  A flag registered with \<open>cmd.Flags().XVar(&opt, name, default, usage)\<close>: the variable
  holds the default unless the command line gives the flag a value.
\<close>

definition flagVar :: "'a \<Rightarrow> 'a option \<Rightarrow> 'a" where
  "flagVar dflt given = (case given of None \<Rightarrow> dflt | Some x \<Rightarrow> x)"

record create_flags =
  cf_mpCount :: "int option"
  cf_dpSize :: "uint64 option"
  cf_capacity :: "uint64 option"
  cf_replicas :: "int option"
  cf_followerRead :: "bool option"
  cf_autoRepair :: "bool option"
  cf_zoneName :: "string option"
  cf_yes :: "bool option"

record create_opts =
  c_optMPCount :: int
  c_optDPSize :: uint64
  c_optCapacity :: uint64
  c_optReplicas :: int
  c_optFollowerRead :: bool
  c_optAutoRepair :: bool
  c_optYes :: bool
  c_optZoneName :: string

definition create_opts_of :: "create_flags \<Rightarrow> create_opts" where
  "create_opts_of f =
    \<lparr>c_optMPCount = flagVar cmdVolDefaultMPCount (cf_mpCount f),
     c_optDPSize = flagVar cmdVolDefaultDPSize (cf_dpSize f),
     c_optCapacity = flagVar cmdVolDefaultCapacity (cf_capacity f),
     c_optReplicas = flagVar cmdVolDefaultReplicas (cf_replicas f),
     c_optFollowerRead = flagVar cmdVolDefaultFollowerReader (cf_followerRead f),
     c_optAutoRepair = flagVar False (cf_autoRepair f),
     c_optYes = flagVar False (cf_yes f),
     c_optZoneName = flagVar cmdVolDefaultZoneName (cf_zoneName f)\<rparr>"

definition create_summary :: "env \<Rightarrow> create_opts \<Rightarrow> string \<Rightarrow> string \<Rightarrow> event list" where
  "create_summary e opts volumeName userID =
    [Stdout ''Create a new volume:\<newline>'' [],
     Stdout ''  Name                : %v\<newline>'' [AString volumeName],
     Stdout ''  Owner               : %v\<newline>'' [AString userID],
     Stdout ''  Dara partition size : %v GB\<newline>'' [AUint64 (c_optDPSize opts)],
     Stdout ''  Meta partition count: %v\<newline>'' [AInt (c_optMPCount opts)],
     Stdout ''  Capacity            : %v GB\<newline>'' [AUint64 (c_optCapacity opts)],
     Stdout ''  Replicas            : %v\<newline>'' [AInt (c_optReplicas opts)],
     Stdout ''  Allow follower read : %v\<newline>''
       [AString (formatEnabledDisabled e (c_optFollowerRead opts))],
     Stdout ''  Auto repair         : %v\<newline>''
       [AString (formatEnabledDisabled e (c_optAutoRepair opts))],
     Stdout ''  ZoneName            : %v\<newline>'' [AString (c_optZoneName opts)],
     Stdout ''\<newline>Confirm (yes/no)[yes]: '' [],
     Scanln]"

definition create_args :: "create_opts \<Rightarrow> string \<Rightarrow> string \<Rightarrow> CreateVolumeArgs" where
  "create_args opts volumeName userID =
    \<lparr>cv_volName = volumeName, cv_owner = userID,
     cv_mpCount = c_optMPCount opts, cv_dpSize = c_optDPSize opts,
     cv_capacity = c_optCapacity opts, cv_replicas = c_optReplicas opts,
     cv_followerRead = c_optFollowerRead opts, cv_autoRepair = c_optAutoRepair opts,
     cv_zoneName = c_optZoneName opts\<rparr>"

definition volCreate_Run :: "env \<Rightarrow> create_opts \<Rightarrow> string \<Rightarrow> string \<Rightarrow> string \<Rightarrow> outcome" where
  "volCreate_Run e opts userConfirm volumeName userID =
    (let t0 = (if \<not> c_optYes opts then create_summary e opts volumeName userID else [])
     in if \<not> c_optYes opts \<and> userConfirm \<noteq> ''yes'' \<and> length userConfirm \<noteq> 0
        then \<lparr>trace = t0 @ [Stdout ''Abort by user.\<newline>'' []],
              status = Returned, err = None, working = None\<rparr>
        else
          (let a = create_args opts volumeName userID;
               er = CreateVolume e a;
               done = (\<lambda>t. \<lparr>trace = t @ [Stdout ''Create volume success.\<newline>'' []],
                             status = Returned, err = er, working = None\<rparr>)
           in case er of
                Some x \<Rightarrow>
                  errout e ''Create volume failed case:\<newline>%v\<newline>'' [AError x] er None
                    (t0 @ [CallCreateVolume a]) done
              | None \<Rightarrow> done (t0 @ [CallCreateVolume a])))"

definition volCreate :: "env \<Rightarrow> create_flags \<Rightarrow> string \<Rightarrow> string \<Rightarrow> string \<Rightarrow> outcome" where
  "volCreate e f userConfirm volumeName userID =
    volCreate_Run e (create_opts_of f) userConfirm volumeName userID"

subsection \<open>\<open>volume set\<close>\<close>

text \<open>
  \<open>strconv.ParseBool\<close>: the twelve literals it accepts, and the \<open>NumError\<close> it returns
  for any other text.
\<close>

definition ParseBool :: "string \<Rightarrow> error + bool" where
  "ParseBool str =
    (if str \<in> set [''1'', ''t'', ''T'', ''TRUE'', ''true'', ''True''] then Inr True
     else if str \<in> set [''0'', ''f'', ''F'', ''FALSE'', ''false'', ''False''] then Inr False
     else Inl (NumError ''ParseBool'' str))"

text \<open>What \<open>fmt.Sprintf\<close> writes for \<open>%v\<close> on an unsigned or signed integer: its decimal digits.\<close>

function decimal :: "nat \<Rightarrow> string" where
  "decimal n =
    (if n < 10 then [''0123456789'' ! n]
     else decimal (n div 10) @ [''0123456789'' ! (n mod 10)])"
  by pat_completeness auto
termination
  by (relation "measure id") auto

declare decimal.simps [simp del]

definition fmt_uint :: "'a::len word \<Rightarrow> string" where
  "fmt_uint w = decimal (unat w)"

definition fmt_int :: "int \<Rightarrow> string" where
  "fmt_int i = (if i < 0 then ''-'' @ decimal (nat (- i)) else decimal (nat i))"

record set_flags =
  sf_capacity :: "uint64 option"
  sf_replicas :: "int option"
  sf_followerRead :: "string option"
  sf_authenticate :: "string option"
  sf_enableToken :: "string option"
  sf_autoRepair :: "string option"
  sf_zoneName :: "string option"
  sf_yes :: "bool option"

record set_opts =
  optCapacity :: uint64
  optReplicas :: int
  optFollowerRead :: string
  optAuthenticate :: string
  optEnableToken :: string
  optAutoRepair :: string
  optZoneName :: string
  optYes :: bool

definition set_opts_of :: "set_flags \<Rightarrow> set_opts" where
  "set_opts_of f =
    \<lparr>optCapacity = flagVar 0 (sf_capacity f),
     optReplicas = flagVar 0 (sf_replicas f),
     optFollowerRead = flagVar [] (sf_followerRead f),
     optAuthenticate = flagVar [] (sf_authenticate f),
     optEnableToken = flagVar [] (sf_enableToken f),
     optAutoRepair = flagVar [] (sf_autoRepair f),
     optZoneName = flagVar [] (sf_zoneName f),
     optYes = flagVar False (sf_yes f)\<rparr>"

text \<open>
  The variables that the body of \<open>Set\<close> updates field by field: the working copy \<open>vv\<close>,
  \<open>isChange\<close> and the text collected in \<open>confirmString\<close>.
\<close>

record set_state =
  st_vv :: SimpleVolView
  st_isChange :: bool
  st_confirmString :: string

definition uint8_of_int :: "int \<Rightarrow> uint8" where
  "uint8_of_int i = word_of_int i"

definition set_capacity :: "set_opts \<Rightarrow> set_state \<Rightarrow> set_state" where
  "set_capacity opts s =
    (if optCapacity opts > 0
     then s\<lparr>st_isChange := True,
            st_confirmString := st_confirmString s @ ''  Capacity            : ''
              @ fmt_uint (Capacity (st_vv s)) @ '' GB -> '' @ fmt_uint (optCapacity opts)
              @ '' GB\<newline>'',
            st_vv := (st_vv s)\<lparr>Capacity := optCapacity opts\<rparr>\<rparr>
     else s\<lparr>st_confirmString := st_confirmString s @ ''  Capacity            : ''
              @ fmt_uint (Capacity (st_vv s)) @ '' GB\<newline>''\<rparr>)"

definition set_replicas :: "set_opts \<Rightarrow> set_state \<Rightarrow> set_state" where
  "set_replicas opts s =
    (if optReplicas opts > 0
     then s\<lparr>st_isChange := True,
            st_confirmString := st_confirmString s @ ''  Replicas            : ''
              @ fmt_uint (DpReplicaNum (st_vv s)) @ '' -> '' @ fmt_int (optReplicas opts)
              @ ''\<newline>'',
            st_vv := (st_vv s)\<lparr>DpReplicaNum := uint8_of_int (optReplicas opts)\<rparr>\<rparr>
     else s\<lparr>st_confirmString := st_confirmString s @ ''  Replicas            : ''
              @ fmt_uint (DpReplicaNum (st_vv s)) @ ''\<newline>''\<rparr>)"

text \<open>
  The four blocks for the boolean fields are the same text up to the label, the field
  read and the field written; \<open>set_bool\<close> is that block. A literal that \<open>ParseBool\<close>
  rejects ends the command there, after \<open>isChange\<close> was set.
\<close>

definition set_bool :: "env \<Rightarrow> string \<Rightarrow> (SimpleVolView \<Rightarrow> bool) \<Rightarrow>
    (bool \<Rightarrow> SimpleVolView \<Rightarrow> SimpleVolView) \<Rightarrow> string \<Rightarrow> set_state \<Rightarrow>
    (error \<times> set_state) + set_state" where
  "set_bool e label field put opt s =
    (if opt \<noteq> []
     then (case ParseBool opt of
             Inl x \<Rightarrow> Inl (x, s\<lparr>st_isChange := True\<rparr>)
           | Inr enable \<Rightarrow>
               Inr (s\<lparr>st_isChange := True,
                      st_confirmString := st_confirmString s @ label
                        @ formatEnabledDisabled e (field (st_vv s)) @ '' -> ''
                        @ formatEnabledDisabled e enable @ ''\<newline>'',
                      st_vv := put enable (st_vv s)\<rparr>))
     else Inr (s\<lparr>st_confirmString := st_confirmString s @ label
                  @ formatEnabledDisabled e (field (st_vv s)) @ ''\<newline>''\<rparr>))"

definition set_followerRead :: "env \<Rightarrow> set_opts \<Rightarrow> set_state \<Rightarrow> (error \<times> set_state) + set_state" where
  "set_followerRead e opts =
    set_bool e ''  Allow follower read : '' FollowerRead (\<lambda>b v. v\<lparr>FollowerRead := b\<rparr>)
      (optFollowerRead opts)"

definition set_authenticate :: "env \<Rightarrow> set_opts \<Rightarrow> set_state \<Rightarrow> (error \<times> set_state) + set_state" where
  "set_authenticate e opts =
    set_bool e ''  Authenticate        : '' Authenticate (\<lambda>b v. v\<lparr>Authenticate := b\<rparr>)
      (optAuthenticate opts)"

definition set_enableToken :: "env \<Rightarrow> set_opts \<Rightarrow> set_state \<Rightarrow> (error \<times> set_state) + set_state" where
  "set_enableToken e opts =
    set_bool e ''  EnableToken         : '' EnableToken (\<lambda>b v. v\<lparr>EnableToken := b\<rparr>)
      (optEnableToken opts)"

definition set_autoRepair :: "env \<Rightarrow> set_opts \<Rightarrow> set_state \<Rightarrow> (error \<times> set_state) + set_state" where
  "set_autoRepair e opts =
    set_bool e ''  AutoRepair          : '' AutoRepair (\<lambda>b v. v\<lparr>AutoRepair := b\<rparr>)
      (optAutoRepair opts)"

definition set_zoneName :: "set_opts \<Rightarrow> set_state \<Rightarrow> set_state" where
  "set_zoneName opts s =
    (if [] \<noteq> optZoneName opts
     then s\<lparr>st_isChange := True,
            st_confirmString := st_confirmString s @ ''  ZoneName            : ''
              @ ZoneName (st_vv s) @ '' -> '' @ optZoneName opts @ ''\<newline>'',
            st_vv := (st_vv s)\<lparr>ZoneName := optZoneName opts\<rparr>\<rparr>
     else s\<lparr>st_confirmString := st_confirmString s @ ''  ZoneName            : ''
              @ ZoneName (st_vv s) @ ''\<newline>''\<rparr>)"

text \<open>
  The seven blocks in the order of the source; the first rejected literal stops them.
  Each boolean block returns at once when \<open>ParseBool\<close> fails, so \<open>err\<close> is \<open>nil\<close> after
  the seventh block and the test of \<open>err\<close> that follows it in the source never fires.
\<close>

definition set_fields :: "env \<Rightarrow> set_opts \<Rightarrow> set_state \<Rightarrow> (error \<times> set_state) + set_state" where
  "set_fields e opts s0 =
    (case set_followerRead e opts (set_replicas opts (set_capacity opts s0)) of
       Inl x \<Rightarrow> Inl x
     | Inr s1 \<Rightarrow>
        (case set_authenticate e opts s1 of
           Inl x \<Rightarrow> Inl x
         | Inr s2 \<Rightarrow>
            (case set_enableToken e opts s2 of
               Inl x \<Rightarrow> Inl x
             | Inr s3 \<Rightarrow>
                (case set_autoRepair e opts s3 of
                   Inl x \<Rightarrow> Inl x
                 | Inr s4 \<Rightarrow> Inr (set_zoneName opts s4)))))"

definition set_start :: "SimpleVolView \<Rightarrow> set_state" where
  "set_start v =
    \<lparr>st_vv = v, st_isChange = False,
     st_confirmString = ''Volume configuration changes:\<newline>''
       @ ''  Name                : '' @ Name v @ ''\<newline>''\<rparr>"

definition update_args :: "SimpleVolView \<Rightarrow> UpdateVolumeArgs" where
  "update_args v =
    \<lparr>uv_volName = Name v, uv_capacity = Capacity v, uv_replicas = uint (DpReplicaNum v),
     uv_followerRead = FollowerRead v, uv_authenticate = Authenticate v,
     uv_enableToken = EnableToken v, uv_autoRepair = AutoRepair v,
     uv_authKey = calcAuthKey (Owner v), uv_zoneName = ZoneName v\<rparr>"

definition set_confirm_apply :: "env \<Rightarrow> set_opts \<Rightarrow> string \<Rightarrow> set_state \<Rightarrow> event list \<Rightarrow> outcome" where
  "set_confirm_apply e opts userConfirm s t1 =
    (let dfr = deferred e ''Error: %v'' (\<lambda>x. [AError x]);
         t2 = t1 @ (if \<not> optYes opts
                    then [Stdout (st_confirmString s) [],
                          Stdout ''\<newline>Confirm (yes/no)[yes]: '' [], Scanln]
                    else [])
     in if \<not> optYes opts \<and> userConfirm \<noteq> ''yes'' \<and> length userConfirm \<noteq> 0
        then dfr (Some (Errorf ''Abort by user.\<newline>'')) (Some (st_vv s)) t2
        else
          (case UpdateVolume e (update_args (st_vv s)) of
             Some x \<Rightarrow> dfr (Some x) (Some (st_vv s)) (t2 @ [CallUpdateVolume (update_args (st_vv s))])
           | None \<Rightarrow>
              \<lparr>trace = t2 @ [CallUpdateVolume (update_args (st_vv s)),
                              Stdout ''Volume configuration has been set successfully.\<newline>'' []],
               status = Returned, err = None, working = Some (st_vv s)\<rparr>))"

definition volSet_Run :: "env \<Rightarrow> set_opts \<Rightarrow> string \<Rightarrow> string \<Rightarrow> outcome" where
  "volSet_Run e opts userConfirm volumeName =
    (let dfr = deferred e ''Error: %v'' (\<lambda>x. [AError x]);
         t1 = [CallGetVolumeSimpleInfo volumeName]
     in case GetVolumeSimpleInfo e volumeName of
          (p, er) \<Rightarrow>
            (case er of
               Some x \<Rightarrow> dfr (Some x) p t1
             | None \<Rightarrow>
                (case p of
                   None \<Rightarrow> \<lparr>trace = t1, status = Panicked, err = None, working = None\<rparr>
                 | Some v \<Rightarrow>
                    (case set_fields e opts (set_start v) of
                       Inl (x, s) \<Rightarrow> dfr (Some x) (Some (st_vv s)) t1
                     | Inr s \<Rightarrow>
                        if \<not> st_isChange s
                        then \<lparr>trace = t1 @ [Stdout ''No changes has been set.\<newline>'' []],
                              status = Returned, err = None, working = Some (st_vv s)\<rparr>
                        else set_confirm_apply e opts userConfirm s t1))))"

definition volSet :: "env \<Rightarrow> set_flags \<Rightarrow> string \<Rightarrow> string \<Rightarrow> outcome" where
  "volSet e f userConfirm volumeName = volSet_Run e (set_opts_of f) userConfirm volumeName"

section \<open>The node process (\<open>cmd/cmd.go\<close>)\<close>

text \<open>
  \<open>main\<close> runs on one goroutine; its effects in program order are the trace below. The
  packages \<open>flag\<close>, \<open>syscall\<close>, \<open>config\<close>, \<open>log\<close>, \<open>signal\<close>, \<open>http\<close> and the three
  servers are outside the given files: each of their calls is one effect that returns,
  and what a call returns to \<open>main\<close> is an input (\<open>proc_input\<close>). Printing and logging
  effects carry their operands: a text, an error (its message) or the resource limit
  just read. The goroutine that \<open>interceptSignal\<close> starts waits for a signal and then
  calls \<open>Shutdown\<close>; starting it is the effect \<open>GoWaitSignal\<close>, and what it does later
  is not part of the main goroutine's trace.
\<close>

datatype level = DebugLevel | InfoLevel | WarnLevel | ErrorLevel

datatype operand = OStr string | OErr string | ORlimit

datatype proc_event =
    FlagParse
  | Getrlimit
  | Setrlimit
  | Println "operand list"
  | Printf string "operand list"
  | LogInfof string "operand list"
  | LoadConfigFile
  | GOMAXPROCS
  | NewServer string
  | GoListenAndServe string
  | InitLog string string level
  | SignalNotify
  | LogInfo "operand list"
  | GoWaitSignal
  | ServerStart
  | LogFatal "operand list"
  | LogErrorf string "operand list"
  | LogFlush
  | ServerSync
  | OsExit int
  | Panic string

record proc_input =
  in_getrlimit :: "string option"
  in_setrlimit :: "string option"
  in_getrlimit2 :: "string option"
  in_configVersion :: bool
  in_role :: string
  in_logDir :: string
  in_logLevel :: string
  in_prof :: string
  in_initLog :: "string option"
  in_start :: "string option"

definition Version :: string where "Version = ''0.01''"
definition RoleMaster :: string where "RoleMaster = ''master''"
definition RoleMeta :: string where "RoleMeta = ''metanode''"
definition RoleData :: string where "RoleData = ''datanode''"
definition ModuleMaster :: string where "ModuleMaster = ''master''"
definition ModuleMeta :: string where "ModuleMeta = ''metaNode''"
definition ModuleData :: string where "ModuleData = ''dataNode''"

definition interceptSignal :: "proc_event list" where
  "interceptSignal =
    [SignalNotify, LogInfo [OStr ''action[interceptSignal] register system signal.''],
     GoWaitSignal]"

definition modifyOpenFiles :: "proc_input \<Rightarrow> proc_event list \<times> string option" where
  "modifyOpenFiles i =
    (case in_getrlimit i of
       Some m \<Rightarrow> ([Getrlimit], Some (''Error Getting Rlimit '' @ m))
     | None \<Rightarrow>
        (case in_setrlimit i of
           Some m \<Rightarrow>
             ([Getrlimit, Println [ORlimit], Setrlimit], Some (''Error Setting Rlimit '' @ m))
         | None \<Rightarrow>
            (case in_getrlimit2 i of
               Some m \<Rightarrow>
                 ([Getrlimit, Println [ORlimit], Setrlimit, Getrlimit],
                  Some (''Error Getting Rlimit '' @ m))
             | None \<Rightarrow>
                 ([Getrlimit, Println [ORlimit], Setrlimit, Getrlimit,
                   Println [OStr ''Rlimit Final'', ORlimit]], None))))"

text \<open>
  The last part of \<open>main\<close>, from \<open>interceptSignal(server)\<close> to the end: the argument is
  what \<open>server.Start(cfg)\<close> returns.
\<close>

definition main_serve :: "string option \<Rightarrow> proc_event list" where
  "main_serve started =
    interceptSignal @ [ServerStart] @
    (case started of
       Some m \<Rightarrow>
         [Println [OStr ''Fatal: failed to start the baud storage daemon - '', OErr m],
          LogFatal [OStr ''Fatal: failed to start the baud storage daemon - '', OErr m],
          LogFlush, OsExit 1]
     | None \<Rightarrow> [ServerSync, LogFlush, OsExit 0])"

definition log_level_of :: "string \<Rightarrow> level" where
  "log_level_of logLevel =
    (let l = ToLower logLevel
     in if l = ''debug'' then DebugLevel
        else if l = ''info'' then InfoLevel
        else if l = ''warn'' then WarnLevel
        else if l = ''error'' then ErrorLevel
        else ErrorLevel)"

definition module_of :: "string \<Rightarrow> string option" where
  "module_of role =
    (if role = RoleMeta then Some ModuleMeta
     else if role = RoleMaster then Some ModuleMaster
     else if role = RoleData then Some ModuleData
     else None)"

text \<open>
  \<open>main\<close>. A failure of \<open>modifyOpenFiles\<close> panics; the deferred function logs the panic,
  flushes and panics again. \<open>os.Exit\<close> ends the process at once.
\<close>

definition main :: "proc_input \<Rightarrow> proc_event list" where
  "main i =
    [FlagParse] @
    (case modifyOpenFiles i of
       (t, Some m) \<Rightarrow>
         t @ [Panic m, LogErrorf ''action[main] process panic detail: %v.'' [OStr m],
              LogFlush, Panic m]
     | (t, None) \<Rightarrow>
         t @
         (if in_configVersion i
          then [Printf ''Current Verson: %s\<newline>'' [OStr Version], OsExit 0]
          else
            [LogInfof ''Hello, Cfs Storage, Current Version: %s'' [OStr Version],
             LoadConfigFile, GOMAXPROCS] @
            (case module_of (in_role i) of
               None \<Rightarrow> [Println [OStr ''Fatal: role mismatch: '', OStr (in_role i)], OsExit 1]
             | Some module \<Rightarrow>
                 [NewServer (in_role i)] @
                 (if in_prof i \<noteq> [] then [GoListenAndServe ('':'' @ in_prof i)] else []) @
                 [InitLog (in_logDir i) module (log_level_of (in_logLevel i))] @
                 (case in_initLog i of
                    Some m \<Rightarrow>
                      [Println [OStr ''Fatal: failed to init log - '', OErr m], OsExit 1]
                  | None \<Rightarrow> main_serve (in_start i)))))"

section \<open>Vocabulary of the properties\<close>

text \<open>The authorization keys that a run sends to the master, in order.\<close>

fun auth_key_of :: "event \<Rightarrow> string option" where
  "auth_key_of (CallUpdateVolume a) = Some (uv_authKey a)"
| "auth_key_of (CallDeleteVolume n k) = Some k"
| "auth_key_of _ = None"

definition auth_keys :: "event list \<Rightarrow> string list" where
  "auth_keys t = List.map_filter auth_key_of t"

text \<open>
  \<open>unsupplied_kept opts v w\<close>: the working copy \<open>w\<close> agrees with the snapshot \<open>v\<close> on the
  name, the owner and the status, and on every field whose override is absent (capacity
  0, replica count 0 or below, empty text).
\<close>

definition unsupplied_kept :: "set_opts \<Rightarrow> SimpleVolView \<Rightarrow> SimpleVolView \<Rightarrow> bool" where
  "unsupplied_kept opts v w =
    (Name w = Name v \<and> Owner w = Owner v \<and> Status w = Status v \<and>
     (optCapacity opts = 0 \<longrightarrow> Capacity w = Capacity v) \<and>
     (optReplicas opts \<le> 0 \<longrightarrow> DpReplicaNum w = DpReplicaNum v) \<and>
     (optFollowerRead opts = [] \<longrightarrow> FollowerRead w = FollowerRead v) \<and>
     (optAuthenticate opts = [] \<longrightarrow> Authenticate w = Authenticate v) \<and>
     (optEnableToken opts = [] \<longrightarrow> EnableToken w = EnableToken v) \<and>
     (optAutoRepair opts = [] \<longrightarrow> AutoRepair w = AutoRepair v) \<and>
     (optZoneName opts = [] \<longrightarrow> ZoneName w = ZoneName v))"

text \<open>A boolean override that was given and that \<open>ParseBool\<close> rejects.\<close>

definition bool_literal_rejected :: "string \<Rightarrow> bool" where
  "bool_literal_rejected str =
    (str \<noteq> [] \<and> (case ParseBool str of Inl _ \<Rightarrow> True | Inr _ \<Rightarrow> False))"

text \<open>
  The two orders of a mutating command. \<open>fetch_confirm_apply\<close>: nothing is asked and
  nothing is applied before the snapshot is fetched, and (when the operator is asked)
  nothing is applied before the answer is scanned. \<open>confirm_fetch_apply\<close>: nothing is
  applied before the snapshot is fetched, and (when the operator is asked) the snapshot
  is neither fetched nor anything applied before the answer is scanned. In both, at
  most one applying call is made.
\<close>

definition fetch_confirm_apply :: "bool \<Rightarrow> event list \<Rightarrow> bool" where
  "fetch_confirm_apply yes t =
    (after_first is_fetch is_confirm t \<and> after_first is_fetch is_apply t \<and>
     (\<not> yes \<longrightarrow> after_first is_confirm is_apply t) \<and>
     length (filter is_apply t) \<le> 1)"

definition confirm_fetch_apply :: "bool \<Rightarrow> event list \<Rightarrow> bool" where
  "confirm_fetch_apply yes t =
    (after_first is_fetch is_apply t \<and>
     (\<not> yes \<longrightarrow> after_first is_confirm is_fetch t \<and> after_first is_confirm is_apply t) \<and>
     length (filter is_apply t) \<le> 1)"

text \<open>\<open>precedes a b t\<close>: both effects occur in \<open>t\<close>, and \<open>b\<close> does not occur before the first \<open>a\<close>.\<close>

definition precedes :: "'a \<Rightarrow> 'a \<Rightarrow> 'a list \<Rightarrow> bool" where
  "precedes a b t = (a \<in> set t \<and> b \<in> set t \<and> after_first (\<lambda>x. x = a) (\<lambda>x. x = b) t)"

section \<open>A sample cluster\<close>

text \<open>
  One volume \<open>v1\<close> of owner \<open>u1\<close> with capacity 50 GB and 3 replicas, in normal state; the
  master accepts every change; \<open>errout\<close> ends the process.
\<close>

definition sample_vol :: SimpleVolView where
  "sample_vol =
    \<lparr>Name = ''v1'', Owner = ''u1'', Capacity = 50, DpReplicaNum = 3, FollowerRead = False,
     Authenticate = False, EnableToken = False, AutoRepair = False, ZoneName = ''default'',
     Status = 0\<rparr>"

definition sample_env :: env where
  "sample_env =
    \<lparr>GetVolumeSimpleInfo =
       (\<lambda>n. if n = ''v1'' then (Some sample_vol, None)
            else (None, Some (RemoteError ''vol not exists''))),
     CreateVolume = (\<lambda>a. None),
     UpdateVolume = (\<lambda>a. None),
     DeleteVolume = (\<lambda>n k. None),
     GetUserInfo = (\<lambda>u. (Some \<lparr>UserID = u\<rparr>, None)),
     TransferVol = (\<lambda>p. None),
     formatEnabledDisabled = (\<lambda>b. if b then ''Enabled'' else ''Disabled''),
     errout_exits = True\<rparr>"

definition abnormal_env :: env where
  "abnormal_env =
    sample_env\<lparr>GetVolumeSimpleInfo := (\<lambda>n. (Some (sample_vol\<lparr>Status := 1\<rparr>), None))\<rparr>"

definition no_create_flags :: create_flags where
  "no_create_flags =
    \<lparr>cf_mpCount = None, cf_dpSize = None, cf_capacity = None, cf_replicas = None,
     cf_followerRead = None, cf_autoRepair = None, cf_zoneName = None, cf_yes = None\<rparr>"

definition no_set_flags :: set_flags where
  "no_set_flags =
    \<lparr>sf_capacity = None, sf_replicas = None, sf_followerRead = None, sf_authenticate = None,
     sf_enableToken = None, sf_autoRepair = None, sf_zoneName = None, sf_yes = None\<rparr>"

text \<open>The same volume of the same owner after it was resized and moved to another zone.\<close>

definition resized_env :: env where
  "resized_env =
    sample_env\<lparr>GetVolumeSimpleInfo :=
      (\<lambda>n. (Some (sample_vol\<lparr>Capacity := 999, DpReplicaNum := 5, FollowerRead := True,
                                ZoneName := ''zone2''\<rparr>), None))\<rparr>"

section \<open>Properties of the volume commands\<close>

lemma remote_calls_simps [simp]:
  "remote_calls [] = []"
  "remote_calls (x # xs) = (if is_remote x then x # remote_calls xs else remote_calls xs)"
  "remote_calls (xs @ ys) = remote_calls xs @ remote_calls ys"
  by (simp_all add: remote_calls_def)

subsection \<open>The confirmation of \<open>delete\<close>\<close>

text \<open>
  C5. A \<open>delete\<close> without \<open>-y\<close> goes on to the master exactly when the scanned answer
  is the literal \<open>yes\<close>. With any other answer (the empty one and \<open>y\<close> among them) the
  run is the prompt, the scan and \<open>Abort by user.\<close>, and no remote call is made.
\<close>

theorem volDelete_exact_yes:
  "\<not> yes \<Longrightarrow>
     ((remote_calls (trace (volDelete e yes userConfirm volumeName)) \<noteq> []) =
        (userConfirm = ''yes'')) \<and>
     (userConfirm \<noteq> ''yes'' \<longrightarrow>
         volDelete e yes userConfirm volumeName =
           \<lparr>trace = [Stdout ''Delete volume [%v] (yes/no)[no]:'' [AString volumeName], Scanln,
                     Stdout ''Abort by user.\<newline>'' []],
            status = Returned, err = None, working = None\<rparr>)"
  by (auto simp: volDelete_def delete_apply_def errout_def Let_def
           split: prod.splits option.splits)

theorem volDelete_exact_yes_witness:
  "volDelete sample_env False ''y'' ''v1'' =
     \<lparr>trace = [Stdout ''Delete volume [%v] (yes/no)[no]:'' [AString ''v1''], Scanln,
               Stdout ''Abort by user.\<newline>'' []],
      status = Returned, err = None, working = None\<rparr> \<and>
   volDelete sample_env False [] ''v1'' =
     \<lparr>trace = [Stdout ''Delete volume [%v] (yes/no)[no]:'' [AString ''v1''], Scanln,
               Stdout ''Abort by user.\<newline>'' []],
      status = Returned, err = None, working = None\<rparr> \<and>
   remote_calls (trace (volDelete sample_env False ''yes'' ''v1'')) \<noteq> []"
  using volDelete_exact_yes [of False sample_env "''y''" "''v1''"]
        volDelete_exact_yes [of False sample_env "[]" "''v1''"]
        volDelete_exact_yes [of False sample_env "''yes''" "''v1''"]
  by simp

subsection \<open>The confirmation of \<open>create\<close> and its defaults\<close>

text \<open>
  C6. A \<open>create\<close> without \<open>-y\<close>: on an empty answer the only remote call of the run is
  the one \<open>CreateVolume\<close> call with the options of the command line; on a non-empty
  answer other than \<open>yes\<close> the run makes no remote call, prints \<open>Abort by user.\<close> and
  returns.
\<close>

theorem volCreate_confirm:
  "\<not> c_optYes (create_opts_of f) \<Longrightarrow>
     (userConfirm = [] \<longrightarrow>
        remote_calls (trace (volCreate e f userConfirm volumeName userID)) =
          [CallCreateVolume (create_args (create_opts_of f) volumeName userID)]) \<and>
     (userConfirm \<noteq> [] \<and> userConfirm \<noteq> ''yes'' \<longrightarrow>
        remote_calls (trace (volCreate e f userConfirm volumeName userID)) = [] \<and>
        status (volCreate e f userConfirm volumeName userID) = Returned \<and>
        last (trace (volCreate e f userConfirm volumeName userID)) =
          Stdout ''Abort by user.\<newline>'' [])"
  by (auto simp: volCreate_def volCreate_Run_def create_summary_def errout_def Let_def
           split: option.splits)

theorem volCreate_confirm_witness:
  "remote_calls (trace (volCreate sample_env no_create_flags [] ''v9'' ''u1'')) =
     [CallCreateVolume (create_args (create_opts_of no_create_flags) ''v9'' ''u1'')] \<and>
   remote_calls (trace (volCreate sample_env no_create_flags ''no'' ''v9'' ''u1'')) = [] \<and>
   remote_calls (trace (volCreate sample_env no_create_flags ''y'' ''v9'' ''u1'')) = []"
  using volCreate_confirm [of no_create_flags "[]" sample_env "''v9''" "''u1''"]
        volCreate_confirm [of no_create_flags "''no''" sample_env "''v9''" "''u1''"]
        volCreate_confirm [of no_create_flags "''y''" sample_env "''v9''" "''u1''"]
  by (simp add: create_opts_of_def no_create_flags_def flagVar_def)

text \<open>
  C10. When none of the optional flags is given and the confirmation passes (\<open>-y\<close>, the
  answer \<open>yes\<close> or the empty answer), the only remote call is one \<open>CreateVolume\<close> with
  3 meta partitions, data partitions of 120 GB, capacity 10 GB, 3 replicas, follower
  read on, auto repair off and zone \<open>default\<close>.
\<close>

theorem volCreate_defaults:
  "flagVar False y \<or> userConfirm = ''yes'' \<or> userConfirm = [] \<Longrightarrow>
   remote_calls (trace (volCreate e (no_create_flags\<lparr>cf_yes := y\<rparr>)
      userConfirm volumeName userID)) =
     [CallCreateVolume
        \<lparr>cv_volName = volumeName, cv_owner = userID, cv_mpCount = 3, cv_dpSize = 120,
         cv_capacity = 10, cv_replicas = 3, cv_followerRead = True, cv_autoRepair = False,
         cv_zoneName = ''default''\<rparr>]"
  by (auto simp: volCreate_def volCreate_Run_def create_opts_of_def create_summary_def
        create_args_def no_create_flags_def
        errout_def Let_def flagVar_def cmdVolDefaultMPCount_def cmdVolDefaultDPSize_def
        cmdVolDefaultCapacity_def cmdVolDefaultReplicas_def cmdVolDefaultFollowerReader_def
        cmdVolDefaultZoneName_def
      split: option.splits)

theorem volCreate_defaults_witness:
  "remote_calls (trace (volCreate sample_env (no_create_flags\<lparr>cf_yes := Some True\<rparr>)
      ''anything'' ''v9'' ''u1'')) =
     [CallCreateVolume
        \<lparr>cv_volName = ''v9'', cv_owner = ''u1'', cv_mpCount = 3, cv_dpSize = 120,
         cv_capacity = 10, cv_replicas = 3, cv_followerRead = True, cv_autoRepair = False,
         cv_zoneName = ''default''\<rparr>]"
  using volCreate_defaults [of "Some True" "''anything''" sample_env "''v9''" "''u1''"]
  by (simp add: flagVar_def)

subsection \<open>\<open>transfer\<close> of a volume in abnormal state\<close>

text \<open>
  C7. When the snapshot that \<open>transfer\<close> fetches has a status other than 0, the command
  ends with the error \<open>volume status abnormal\<close>, and the fetch is its only remote call:
  neither \<open>GetUserInfo\<close> nor \<open>TransferVol\<close> is called. (When the confirmation is
  refused the snapshot is not even fetched.)
\<close>

theorem volTransfer_abnormal:
  "GetVolumeSimpleInfo e volume = (Some v, None) \<Longrightarrow> Status v \<noteq> 0 \<Longrightarrow>
     remote_calls (trace (volTransfer e yes force confirm volume userID)) =
       (if yes \<or> confirm = ''yes'' then [CallGetVolumeSimpleInfo volume] else []) \<and>
     (yes \<or> confirm = ''yes'' \<longrightarrow>
        err (volTransfer e yes force confirm volume userID) =
          Some (Errorf ''volume status abnormal''))"
  by (auto simp: volTransfer_def deferred_def Let_def split: option.splits)

theorem volTransfer_abnormal_witness:
  "remote_calls (trace (volTransfer abnormal_env True False [] ''v1'' ''u2'')) =
     [CallGetVolumeSimpleInfo ''v1''] \<and>
   err (volTransfer abnormal_env True False [] ''v1'' ''u2'') =
     Some (Errorf ''volume status abnormal'')"
  using volTransfer_abnormal [of abnormal_env "''v1''" "sample_vol\<lparr>Status := 1\<rparr>"
          True False "[]" "''u2''"]
  by (simp add: abnormal_env_def sample_env_def sample_vol_def)

subsection \<open>Facts about the blocks of \<open>set\<close>\<close>

lemma word_not_gt0 [simp]: "(\<not> 0 < (w :: 'a::len word)) = (w = 0)"
  by (simp add: word_gt_0)

lemma auth_keys_simps [simp]:
  "auth_keys [] = []"
  "auth_keys (x # xs) = (case auth_key_of x of None \<Rightarrow> auth_keys xs | Some k \<Rightarrow> k # auth_keys xs)"
  "auth_keys (xs @ ys) = auth_keys xs @ auth_keys ys"
  by (simp_all add: auth_keys_def List.map_filter_def split: option.splits)

lemma unsupplied_kept_refl: "unsupplied_kept opts v v"
  by (simp add: unsupplied_kept_def)

lemma set_capacity_kept:
  "unsupplied_kept opts v (st_vv s) \<Longrightarrow> unsupplied_kept opts v (st_vv (set_capacity opts s))"
  by (auto simp: unsupplied_kept_def set_capacity_def)

lemma set_replicas_kept:
  "unsupplied_kept opts v (st_vv s) \<Longrightarrow> unsupplied_kept opts v (st_vv (set_replicas opts s))"
  by (auto simp: unsupplied_kept_def set_replicas_def)

lemma set_zoneName_kept:
  "unsupplied_kept opts v (st_vv s) \<Longrightarrow> unsupplied_kept opts v (st_vv (set_zoneName opts s))"
  by (auto simp: unsupplied_kept_def set_zoneName_def)

lemma set_bool_Inl:
  "set_bool e l g p opt s = Inl (x, s') \<Longrightarrow>
     st_vv s' = st_vv s \<and> bool_literal_rejected opt \<and> x = NumError ''ParseBool'' opt"
  by (auto simp: set_bool_def bool_literal_rejected_def ParseBool_def split: if_splits sum.splits)

lemma set_bool_Inr:
  "set_bool e l g p opt s = Inr s' \<Longrightarrow>
     \<not> bool_literal_rejected opt \<and>
     (if opt = [] then st_vv s' = st_vv s \<and> st_isChange s' = st_isChange s
      else (\<exists>b. ParseBool opt = Inr b \<and> st_vv s' = p b (st_vv s)) \<and> st_isChange s')"
  by (auto simp: set_bool_def bool_literal_rejected_def split: if_splits sum.splits)

lemma set_bool_kept:
  assumes r: "set_bool e l g p opt s = Inr s'"
    and k: "unsupplied_kept opts v (st_vv s)"
    and p: "\<And>b w. opt \<noteq> [] \<Longrightarrow> unsupplied_kept opts v w \<Longrightarrow> unsupplied_kept opts v (p b w)"
  shows "unsupplied_kept opts v (st_vv s')"
proof (cases "opt = []")
  case True
  with r have "st_vv s' = st_vv s" by (auto simp: set_bool_def)
  with k show ?thesis by simp
next
  case False
  with r obtain b where "st_vv s' = p b (st_vv s)"
    by (auto simp: set_bool_def split: sum.splits)
  with p [OF False k] show ?thesis by simp
qed

lemma set_followerRead_kept:
  "set_followerRead e opts s = Inr s' \<Longrightarrow> unsupplied_kept opts v (st_vv s) \<Longrightarrow>
     unsupplied_kept opts v (st_vv s')"
  unfolding set_followerRead_def
  by (erule set_bool_kept) (simp_all add: unsupplied_kept_def)

lemma set_authenticate_kept:
  "set_authenticate e opts s = Inr s' \<Longrightarrow> unsupplied_kept opts v (st_vv s) \<Longrightarrow>
     unsupplied_kept opts v (st_vv s')"
  unfolding set_authenticate_def
  by (erule set_bool_kept) (simp_all add: unsupplied_kept_def)

lemma set_enableToken_kept:
  "set_enableToken e opts s = Inr s' \<Longrightarrow> unsupplied_kept opts v (st_vv s) \<Longrightarrow>
     unsupplied_kept opts v (st_vv s')"
  unfolding set_enableToken_def
  by (erule set_bool_kept) (simp_all add: unsupplied_kept_def)

lemma set_autoRepair_kept:
  "set_autoRepair e opts s = Inr s' \<Longrightarrow> unsupplied_kept opts v (st_vv s) \<Longrightarrow>
     unsupplied_kept opts v (st_vv s')"
  unfolding set_autoRepair_def
  by (erule set_bool_kept) (simp_all add: unsupplied_kept_def)

lemma set_bool_Inl_vv:
  "set_followerRead e opts s = Inl (x, s') \<Longrightarrow> st_vv s' = st_vv s"
  "set_authenticate e opts s = Inl (x, s') \<Longrightarrow> st_vv s' = st_vv s"
  "set_enableToken e opts s = Inl (x, s') \<Longrightarrow> st_vv s' = st_vv s"
  "set_autoRepair e opts s = Inl (x, s') \<Longrightarrow> st_vv s' = st_vv s"
  by (auto simp: set_followerRead_def set_authenticate_def set_enableToken_def
        set_autoRepair_def dest: set_bool_Inl)

lemma set_fields_Inr_steps:
  "set_fields e opts s0 = Inr s \<Longrightarrow>
     \<exists>s1 s2 s3 s4.
       set_followerRead e opts (set_replicas opts (set_capacity opts s0)) = Inr s1 \<and>
       set_authenticate e opts s1 = Inr s2 \<and>
       set_enableToken e opts s2 = Inr s3 \<and>
       set_autoRepair e opts s3 = Inr s4 \<and>
       s = set_zoneName opts s4"
  by (simp add: set_fields_def split: sum.splits)

lemma set_fields_Inl_steps:
  "set_fields e opts s0 = Inl xs \<Longrightarrow>
     set_followerRead e opts (set_replicas opts (set_capacity opts s0)) = Inl xs \<or>
     (\<exists>s1. set_followerRead e opts (set_replicas opts (set_capacity opts s0)) = Inr s1 \<and>
        (set_authenticate e opts s1 = Inl xs \<or>
         (\<exists>s2. set_authenticate e opts s1 = Inr s2 \<and>
            (set_enableToken e opts s2 = Inl xs \<or>
             (\<exists>s3. set_enableToken e opts s2 = Inr s3 \<and>
                set_autoRepair e opts s3 = Inl xs)))))"
  by (simp add: set_fields_def split: sum.splits)

lemma set_fields_kept_Inr:
  assumes k: "unsupplied_kept opts v (st_vv s0)" and r: "set_fields e opts s0 = Inr s"
  shows "unsupplied_kept opts v (st_vv s)"
proof -
  from set_fields_Inr_steps [OF r] obtain s1 s2 s3 s4 where
    a: "set_followerRead e opts (set_replicas opts (set_capacity opts s0)) = Inr s1" and
    b: "set_authenticate e opts s1 = Inr s2" and
    c: "set_enableToken e opts s2 = Inr s3" and
    d: "set_autoRepair e opts s3 = Inr s4" and
    z: "s = set_zoneName opts s4"
    by blast
  have "unsupplied_kept opts v (st_vv (set_replicas opts (set_capacity opts s0)))"
    using k by (intro set_replicas_kept set_capacity_kept)
  then have "unsupplied_kept opts v (st_vv s1)" by (rule set_followerRead_kept [OF a])
  then have "unsupplied_kept opts v (st_vv s2)" by (rule set_authenticate_kept [OF b])
  then have "unsupplied_kept opts v (st_vv s3)" by (rule set_enableToken_kept [OF c])
  then have "unsupplied_kept opts v (st_vv s4)" by (rule set_autoRepair_kept [OF d])
  then show ?thesis unfolding z by (rule set_zoneName_kept)
qed

lemma set_fields_kept_Inl:
  assumes k: "unsupplied_kept opts v (st_vv s0)" and r: "set_fields e opts s0 = Inl (x, s)"
  shows "unsupplied_kept opts v (st_vv s)"
proof -
  let ?s0 = "set_replicas opts (set_capacity opts s0)"
  have k0: "unsupplied_kept opts v (st_vv ?s0)"
    using k by (intro set_replicas_kept set_capacity_kept)
  from set_fields_Inl_steps [OF r] consider
      (a) "set_followerRead e opts ?s0 = Inl (x, s)"
    | (b) s1 where "set_followerRead e opts ?s0 = Inr s1" "set_authenticate e opts s1 = Inl (x, s)"
    | (c) s1 s2 where "set_followerRead e opts ?s0 = Inr s1" "set_authenticate e opts s1 = Inr s2"
        "set_enableToken e opts s2 = Inl (x, s)"
    | (d) s1 s2 s3 where "set_followerRead e opts ?s0 = Inr s1" "set_authenticate e opts s1 = Inr s2"
        "set_enableToken e opts s2 = Inr s3" "set_autoRepair e opts s3 = Inl (x, s)"
    by blast
  then show ?thesis
  proof cases
    case a
    then show ?thesis using k0 by (simp add: set_bool_Inl_vv)
  next
    case b
    then show ?thesis using set_followerRead_kept [OF b(1) k0] by (simp add: set_bool_Inl_vv)
  next
    case c
    then show ?thesis
      using set_authenticate_kept [OF c(2) set_followerRead_kept [OF c(1) k0]]
      by (simp add: set_bool_Inl_vv)
  next
    case d
    then show ?thesis
      using set_enableToken_kept [OF d(3)
              set_authenticate_kept [OF d(2) set_followerRead_kept [OF d(1) k0]]]
      by (simp add: set_bool_Inl_vv)
  qed
qed

lemma set_fields_Inr_accepts:
  assumes r: "set_fields e opts s0 = Inr s"
  shows "\<not> bool_literal_rejected (optFollowerRead opts) \<and>
     \<not> bool_literal_rejected (optAuthenticate opts) \<and>
     \<not> bool_literal_rejected (optEnableToken opts) \<and>
     \<not> bool_literal_rejected (optAutoRepair opts)"
proof -
  from set_fields_Inr_steps [OF r] obtain s1 s2 s3 s4 where
    a: "set_followerRead e opts (set_replicas opts (set_capacity opts s0)) = Inr s1" and
    b: "set_authenticate e opts s1 = Inr s2" and
    c: "set_enableToken e opts s2 = Inr s3" and
    d: "set_autoRepair e opts s3 = Inr s4"
    by blast
  show ?thesis
    using set_bool_Inr [OF a [unfolded set_followerRead_def]]
      set_bool_Inr [OF b [unfolded set_authenticate_def]]
      set_bool_Inr [OF c [unfolded set_enableToken_def]]
      set_bool_Inr [OF d [unfolded set_autoRepair_def]]
    by blast
qed

lemma set_fields_Inl_rejects:
  assumes r: "set_fields e opts s0 = Inl (x, s)"
  shows "\<exists>opt \<in> set [optFollowerRead opts, optAuthenticate opts, optEnableToken opts,
                  optAutoRepair opts].
       bool_literal_rejected opt \<and> x = NumError ''ParseBool'' opt"
  using set_fields_Inl_steps [OF r]
  by (auto simp: set_followerRead_def set_authenticate_def set_enableToken_def
        set_autoRepair_def dest!: set_bool_Inl)

lemma working_deferred [simp]:
  "working (deferred e fmt as er w t) = w"
  "err (deferred e fmt as er w t) = er"
  "remote_calls (trace (deferred e fmt as er w t)) = remote_calls t"
  "status (deferred e fmt as (Some x) w t) = (if errout_exits e then Exited 1 else Returned)"
  by (simp_all add: deferred_def split: option.splits)

lemma working_set_confirm_apply [simp]:
  "working (set_confirm_apply e opts uc s t) = Some (st_vv s)"
  by (simp add: set_confirm_apply_def Let_def split: option.splits)

lemma sample_fetch: "GetVolumeSimpleInfo sample_env ''v1'' = (Some sample_vol, None)"
  by (simp add: sample_env_def)

lemma resized_fetch:
  "GetVolumeSimpleInfo resized_env ''v1'' =
     (Some (sample_vol\<lparr>Capacity := 999, DpReplicaNum := 5, FollowerRead := True,
                        ZoneName := ''zone2''\<rparr>), None)"
  by (simp add: resized_env_def sample_env_def)

lemmas volSet_unfold =
  volSet_def volSet_Run_def set_confirm_apply_def set_opts_of_def flagVar_def
  set_fields_def set_start_def set_capacity_def set_replicas_def set_zoneName_def
  set_followerRead_def set_authenticate_def set_enableToken_def set_autoRepair_def
  set_bool_def ParseBool_def deferred_def update_args_def Let_def

subsection \<open>\<open>set\<close> without any override\<close>

text \<open>
  C4, as the code has it. A \<open>set\<close> to which no override flag is given (whatever \<open>-y\<close>
  is) makes exactly one remote call, the fetch of the snapshot, and never the update
  call; when the fetch succeeds, the run is the fetch followed by
  \<open>No changes has been set.\<close>, and the working copy is the snapshot.
\<close>

theorem volSet_no_flags:
  "remote_calls (trace (volSet e (no_set_flags\<lparr>sf_yes := y\<rparr>) userConfirm volumeName)) =
     [CallGetVolumeSimpleInfo volumeName] \<and>
   (GetVolumeSimpleInfo e volumeName = (Some v, None) \<longrightarrow>
      volSet e (no_set_flags\<lparr>sf_yes := y\<rparr>) userConfirm volumeName =
        \<lparr>trace = [CallGetVolumeSimpleInfo volumeName,
                  Stdout ''No changes has been set.\<newline>'' []],
         status = Returned, err = None, working = Some v\<rparr>)"
  by (auto simp: volSet_def volSet_Run_def set_opts_of_def no_set_flags_def flagVar_def
        set_fields_def set_start_def set_capacity_def set_replicas_def set_zoneName_def
        set_followerRead_def set_authenticate_def set_enableToken_def set_autoRepair_def
        set_bool_def deferred_def Let_def
      split: prod.splits option.splits)

theorem volSet_no_flags_witness:
  "volSet sample_env no_set_flags [] ''v1'' =
     \<lparr>trace = [CallGetVolumeSimpleInfo ''v1'', Stdout ''No changes has been set.\<newline>'' []],
      status = Returned, err = None, working = Some sample_vol\<rparr>"
  using volSet_no_flags [of sample_env None "[]" "''v1''" sample_vol]
  by (simp add: sample_env_def no_set_flags_def)

text \<open>
  C4 as stated asks for zero remote calls. On the sample cluster the run without
  overrides makes one: the fetch of \<open>v1\<close>.
\<close>

theorem set_without_flags_still_fetches:
  "remote_calls (trace (volSet sample_env no_set_flags [] ''v1'')) =
     [CallGetVolumeSimpleInfo ''v1''] \<and>
   length (remote_calls (trace (volSet sample_env no_set_flags [] ''v1''))) = 1"
  by (simp add: volSet_def volSet_Run_def set_opts_of_def no_set_flags_def flagVar_def
        set_fields_def set_start_def set_capacity_def set_replicas_def set_zoneName_def
        set_followerRead_def set_authenticate_def set_enableToken_def set_autoRepair_def
        set_bool_def deferred_def Let_def sample_env_def)

subsection \<open>\<open>set\<close> with a boolean override that \<open>ParseBool\<close> rejects\<close>

text \<open>
  C2, as the code has it. Let the snapshot be fetched. Then the working copy at the end
  of the run agrees with the snapshot on every field whose override is absent. If one
  of the four boolean overrides is given and is not one of the twelve literals of
  \<open>ParseBool\<close>, the run ends with the \<open>NumError\<close> of \<open>ParseBool\<close> for such an
  override, its only remote call is the fetch (no update call), and it ends as the
  deferred \<open>errout\<close> ends. Fields whose blocks stand before the rejected one have
  already been written on the working copy by then.
\<close>

theorem volSet_rejected_literal:
  assumes fetch: "GetVolumeSimpleInfo e volumeName = (Some v, None)"
  shows "(\<exists>w. working (volSet e f userConfirm volumeName) = Some w \<and>
            unsupplied_kept (set_opts_of f) v w) \<and>
         (bool_literal_rejected (optFollowerRead (set_opts_of f)) \<or>
          bool_literal_rejected (optAuthenticate (set_opts_of f)) \<or>
          bool_literal_rejected (optEnableToken (set_opts_of f)) \<or>
          bool_literal_rejected (optAutoRepair (set_opts_of f)) \<longrightarrow>
          (\<exists>opt \<in> set [optFollowerRead (set_opts_of f), optAuthenticate (set_opts_of f),
                         optEnableToken (set_opts_of f), optAutoRepair (set_opts_of f)].
              bool_literal_rejected opt \<and>
              err (volSet e f userConfirm volumeName) = Some (NumError ''ParseBool'' opt)) \<and>
          remote_calls (trace (volSet e f userConfirm volumeName)) =
            [CallGetVolumeSimpleInfo volumeName] \<and>
          status (volSet e f userConfirm volumeName) =
            (if errout_exits e then Exited 1 else Returned))"
proof (cases "set_fields e (set_opts_of f) (set_start v)")
  case (Inl xs)
  obtain x s where xs: "xs = (x, s)" by (cases xs)
  have k: "unsupplied_kept (set_opts_of f) v (st_vv s)"
    by (rule set_fields_kept_Inl [OF _ Inl [unfolded xs]])
       (simp add: set_start_def unsupplied_kept_refl)
  have run: "volSet e f userConfirm volumeName =
      deferred e ''Error: %v'' (\<lambda>x. [AError x]) (Some x) (Some (st_vv s))
        [CallGetVolumeSimpleInfo volumeName]"
    by (simp add: volSet_def volSet_Run_def fetch Inl xs Let_def)
  show ?thesis
    using k set_fields_Inl_rejects [OF Inl [unfolded xs]]
    by (simp add: run)
next
  case (Inr s)
  have k: "unsupplied_kept (set_opts_of f) v (st_vv s)"
    by (rule set_fields_kept_Inr [OF _ Inr]) (simp add: set_start_def unsupplied_kept_refl)
  have w: "working (volSet e f userConfirm volumeName) = Some (st_vv s)"
    by (simp add: volSet_def volSet_Run_def fetch Inr Let_def)
  show ?thesis
    using k set_fields_Inr_accepts [OF Inr] by (simp add: w)
qed

theorem volSet_rejected_literal_witness:
  "err (volSet sample_env (no_set_flags\<lparr>sf_capacity := Some 80, sf_followerRead := Some ''maybe''\<rparr>)
          [] ''v1'') = Some (NumError ''ParseBool'' ''maybe'') \<and>
   remote_calls (trace (volSet sample_env
          (no_set_flags\<lparr>sf_capacity := Some 80, sf_followerRead := Some ''maybe''\<rparr>) [] ''v1'')) =
     [CallGetVolumeSimpleInfo ''v1''] \<and>
   status (volSet sample_env
          (no_set_flags\<lparr>sf_capacity := Some 80, sf_followerRead := Some ''maybe''\<rparr>) [] ''v1'') =
     Exited 1"
  using volSet_rejected_literal [OF sample_fetch,
          of "no_set_flags\<lparr>sf_capacity := Some 80, sf_followerRead := Some ''maybe''\<rparr>" "[]"]
  by (simp add: set_opts_of_def no_set_flags_def flagVar_def bool_literal_rejected_def
        ParseBool_def sample_env_def)

text \<open>
  C2 as stated fails twice on the sample cluster. With capacity 80 and follower-read
  \<open>maybe\<close> the run ends with the \<open>NumError\<close>, but the working copy already holds
  capacity 80 where the snapshot has 50. With follower-read \<open>1\<close>, which is not one of
  the texts \<open>true\<close> and \<open>false\<close>, the run does not fail: the update call is made
  with follower read on.
\<close>

theorem volSet_mutates_before_rejecting:
  "err (volSet sample_env
         (no_set_flags\<lparr>sf_capacity := Some 80, sf_followerRead := Some ''maybe''\<rparr>) [] ''v1'') =
     Some (NumError ''ParseBool'' ''maybe'') \<and>
   map_option Capacity (working (volSet sample_env
         (no_set_flags\<lparr>sf_capacity := Some 80, sf_followerRead := Some ''maybe''\<rparr>) [] ''v1'')) =
     Some 80 \<and>
   Capacity sample_vol = 50 \<and>
   remote_calls (trace (volSet sample_env
         (no_set_flags\<lparr>sf_followerRead := Some ''1'', sf_yes := Some True\<rparr>) [] ''v1'')) =
     [CallGetVolumeSimpleInfo ''v1'',
      CallUpdateVolume
        \<lparr>uv_volName = ''v1'', uv_capacity = 50, uv_replicas = 3, uv_followerRead = True,
         uv_authenticate = False, uv_enableToken = False, uv_autoRepair = False,
         uv_authKey = calcAuthKey ''u1'', uv_zoneName = ''default''\<rparr>]"
  by (simp add: volSet_unfold no_set_flags_def sample_env_def sample_vol_def)

subsection \<open>The values 0 and below stand for an absent override\<close>

lemma volSet_sentinel_is_omitted:
  "r \<le> 0 \<Longrightarrow>
   volSet e (f\<lparr>sf_capacity := Some 0, sf_replicas := Some r\<rparr>) userConfirm volumeName =
   volSet e (f\<lparr>sf_capacity := None, sf_replicas := None\<rparr>) userConfirm volumeName"
proof -
  let ?a = "set_opts_of (f\<lparr>sf_capacity := Some 0, sf_replicas := Some r\<rparr>)"
  let ?b = "set_opts_of (f\<lparr>sf_capacity := None, sf_replicas := None\<rparr>)"
  assume r: "r \<le> 0"
  have first: "set_replicas ?a (set_capacity ?a s) = set_replicas ?b (set_capacity ?b s)" for s
    using r by (simp add: set_opts_of_def flagVar_def set_capacity_def set_replicas_def)
  have bools: "set_followerRead e ?a = set_followerRead e ?b"
    "set_authenticate e ?a = set_authenticate e ?b"
    "set_enableToken e ?a = set_enableToken e ?b"
    "set_autoRepair e ?a = set_autoRepair e ?b"
    by (simp_all add: set_opts_of_def flagVar_def set_followerRead_def set_authenticate_def
          set_enableToken_def set_autoRepair_def)
  have zone: "set_zoneName ?a = set_zoneName ?b"
    by (simp add: set_opts_of_def flagVar_def set_zoneName_def fun_eq_iff)
  have fields: "set_fields e ?a s = set_fields e ?b s" for s
    by (simp only: set_fields_def first bools zone)
  have conf: "set_confirm_apply e ?a = set_confirm_apply e ?b"
    by (simp add: set_opts_of_def flagVar_def set_confirm_apply_def fun_eq_iff)
  show ?thesis
    unfolding volSet_def volSet_Run_def fields conf by (rule refl)
qed

subsection \<open>A replica count of 256\<close>

text \<open>
  C8 at \<open>--replicas 256\<close> on the sample cluster, answering \<open>yes\<close>: the summary shows
  \<open>3 -> 256\<close>, and the update call carries the replica count 0, since the conversion
  to \<open>uint8\<close> keeps the low eight bits.
\<close>

theorem volSet_replicas_256:
  "trace (volSet sample_env (no_set_flags\<lparr>sf_replicas := Some 256\<rparr>) ''yes'' ''v1'') =
     [CallGetVolumeSimpleInfo ''v1'',
      Stdout (''Volume configuration changes:\<newline>'' @
              ''  Name                : v1\<newline>'' @
              ''  Capacity            : 50 GB\<newline>'' @
              ''  Replicas            : 3 -> 256\<newline>'' @
              ''  Allow follower read : Disabled\<newline>'' @
              ''  Authenticate        : Disabled\<newline>'' @
              ''  EnableToken         : Disabled\<newline>'' @
              ''  AutoRepair          : Disabled\<newline>'' @
              ''  ZoneName            : default\<newline>'') [],
      Stdout ''\<newline>Confirm (yes/no)[yes]: '' [],
      Scanln,
      CallUpdateVolume
        \<lparr>uv_volName = ''v1'', uv_capacity = 50, uv_replicas = 0, uv_followerRead = False,
         uv_authenticate = False, uv_enableToken = False, uv_autoRepair = False,
         uv_authKey = calcAuthKey ''u1'', uv_zoneName = ''default''\<rparr>,
      Stdout ''Volume configuration has been set successfully.\<newline>'' []]"
  by (simp add: volSet_unfold no_set_flags_def sample_env_def sample_vol_def
        fmt_uint_def fmt_int_def decimal.simps uint8_of_int_def)

subsection \<open>The authorization key depends on the owner only\<close>

text \<open>The digest of the owner \<open>u1\<close>, computed by the definitions above.\<close>

lemma calcAuthKey_u1: "calcAuthKey ''u1'' = ''e4774cdda0793f86414e8b9140bb6db4''"
  by code_simp

lemma auth_keys_deferred [simp]:
  "auth_keys (trace (deferred e fmt as er w t)) = auth_keys t"
  by (simp add: deferred_def split: option.splits)

lemma volSet_auth_keys:
  assumes fetch: "GetVolumeSimpleInfo e volumeName = (Some v, er)"
  shows "set (auth_keys (trace (volSet e f userConfirm volumeName))) \<subseteq> {calcAuthKey (Owner v)}"
proof (cases er)
  case (Some x)
  then show ?thesis by (simp add: volSet_def volSet_Run_def fetch Let_def)
next
  case None
  show ?thesis
  proof (cases "set_fields e (set_opts_of f) (set_start v)")
    case (Inl xs)
    then show ?thesis
      by (cases xs) (simp add: volSet_def volSet_Run_def fetch None Let_def)
  next
    case (Inr s)
    have "unsupplied_kept (set_opts_of f) v (st_vv s)"
      by (rule set_fields_kept_Inr [OF _ Inr]) (simp add: set_start_def unsupplied_kept_refl)
    then have "Owner (st_vv s) = Owner v" by (simp add: unsupplied_kept_def)
    then show ?thesis
      by (simp add: volSet_def volSet_Run_def fetch None Inr Let_def set_confirm_apply_def
            update_args_def split: option.splits)
  qed
qed

lemma volDelete_auth_keys:
  assumes fetch: "GetVolumeSimpleInfo e volumeName = (Some v, er)"
  shows "set (auth_keys (trace (volDelete e yes userConfirm volumeName))) \<subseteq> {calcAuthKey (Owner v)}"
  by (auto simp: volDelete_def delete_apply_def errout_def fetch Let_def split: option.splits)

text \<open>
  C9. \<open>calcAuthKey\<close> is a function of the owner text. Take two clusters whose snapshots
  (of any two volumes, in any state) have the same owner: every authorization key that
  any \<open>set\<close> or \<open>delete\<close> run sends on either cluster, with any flags and answers, is
  the one value \<open>calcAuthKey\<close> of that owner.
\<close>

theorem authKey_owner_only:
  assumes "GetVolumeSimpleInfo e1 n1 = (Some v1, er1)"
    and "GetVolumeSimpleInfo e2 n2 = (Some v2, er2)"
    and "Owner v1 = Owner v2"
  shows "set (auth_keys (trace (volSet e1 f1 c1 n1))) \<union>
         set (auth_keys (trace (volDelete e1 y1 d1 n1))) \<union>
         set (auth_keys (trace (volSet e2 f2 c2 n2))) \<union>
         set (auth_keys (trace (volDelete e2 y2 d2 n2))) \<subseteq> {calcAuthKey (Owner v1)}"
  using volSet_auth_keys [OF assms(1), of f1 c1] volDelete_auth_keys [OF assms(1), of y1 d1]
    volSet_auth_keys [OF assms(2), of f2 c2] volDelete_auth_keys [OF assms(2), of y2 d2]
    assms(3)
  by auto

theorem authKey_owner_only_witness:
  "auth_keys (trace (volDelete sample_env True [] ''v1'')) = [calcAuthKey ''u1''] \<and>
   auth_keys (trace (volDelete resized_env True [] ''v1'')) = [calcAuthKey ''u1''] \<and>
   auth_keys (trace (volSet sample_env (no_set_flags\<lparr>sf_capacity := Some 80\<rparr>) [] ''v1'')) =
     [calcAuthKey ''u1''] \<and>
   auth_keys (trace (volSet resized_env (no_set_flags\<lparr>sf_zoneName := Some ''z''\<rparr>) [] ''v1'')) =
     [calcAuthKey ''u1'']"
  using authKey_owner_only [OF sample_fetch resized_fetch,
      of "no_set_flags\<lparr>sf_capacity := Some 80\<rparr>" "[]" True "[]"
         "no_set_flags\<lparr>sf_zoneName := Some ''z''\<rparr>" "[]" True "[]"]
  by (simp add: volSet_unfold volDelete_def delete_apply_def no_set_flags_def sample_env_def
        sample_vol_def resized_env_def)

subsection \<open>The order of fetch, confirmation and applying call\<close>

lemma deferred_trace:
  "trace (deferred e fmt as er w t) =
     t @ (case er of None \<Rightarrow> [] | Some x \<Rightarrow> [Errout fmt (as x)])"
  by (simp add: deferred_def split: option.splits)

lemma after_first_snoc:
  "\<not> Q x \<Longrightarrow> after_first P Q (t @ [x]) = after_first P Q t"
  by (induction t) auto

lemma confirm_fetch_apply_report:
  "confirm_fetch_apply y (t @ (case er of None \<Rightarrow> [] | Some x \<Rightarrow> [Errout fmt (as x)])) =
     confirm_fetch_apply y t"
  by (cases er) (simp_all add: confirm_fetch_apply_def after_first_snoc)

lemma volTransfer_order: "confirm_fetch_apply y (trace (volTransfer e y fo c n u))"
  apply (simp add: volTransfer_def deferred_trace confirm_fetch_apply_report Let_def
           split: prod.splits option.splits)
  apply (auto simp: confirm_fetch_apply_def)
  done

lemma volDelete_order: "confirm_fetch_apply y (trace (volDelete e y c n))"
  apply (simp add: volDelete_def delete_apply_def errout_def Let_def
           split: prod.splits option.splits)
  apply (auto simp: confirm_fetch_apply_def)
  done

lemma volSet_order: "fetch_confirm_apply (optYes (set_opts_of f)) (trace (volSet e f c n))"
  apply (simp add: volSet_def volSet_Run_def set_confirm_apply_def deferred_def Let_def
           split: prod.splits option.splits sum.splits)
  apply (auto simp: fetch_confirm_apply_def)
  done

text \<open>
  C1, as the code has it. \<open>set\<close> fetches the snapshot, then asks (unless \<open>-y\<close>), then
  applies: nothing is asked or applied before the fetch, and nothing is applied before
  the answer is scanned. \<open>delete\<close> and \<open>transfer\<close> ask first (unless \<open>-y\<close>), then
  fetch the snapshot, then apply: the snapshot is not fetched and nothing is applied
  before the answer is scanned, and nothing is applied before the fetch. Each of the
  three makes at most one applying call.
\<close>

theorem command_order:
  "fetch_confirm_apply (optYes (set_opts_of f)) (trace (volSet e f c n)) \<and>
   confirm_fetch_apply y (trace (volDelete e y c n)) \<and>
   confirm_fetch_apply y (trace (volTransfer e y fo c n u))"
  by (rule conjI [OF volSet_order conjI [OF volDelete_order volTransfer_order]])

theorem command_order_witness:
  "after_first is_fetch is_confirm
     (trace (volSet sample_env (no_set_flags\<lparr>sf_capacity := Some 80\<rparr>) ''yes'' ''v1'')) \<and>
   after_first is_confirm is_apply
     (trace (volSet sample_env (no_set_flags\<lparr>sf_capacity := Some 80\<rparr>) ''yes'' ''v1'')) \<and>
   after_first is_confirm is_fetch (trace (volDelete sample_env False ''yes'' ''v1'')) \<and>
   after_first is_fetch is_apply (trace (volDelete sample_env False ''yes'' ''v1'')) \<and>
   after_first is_confirm is_fetch
     (trace (volTransfer sample_env False False ''yes'' ''v1'' ''u2'')) \<and>
   after_first is_fetch is_apply
     (trace (volTransfer sample_env False False ''yes'' ''v1'' ''u2''))"
  using command_order [of "no_set_flags\<lparr>sf_capacity := Some 80\<rparr>" sample_env "''yes''" "''v1''"
          False False "''u2''"]
  by (simp add: fetch_confirm_apply_def confirm_fetch_apply_def set_opts_of_def
        no_set_flags_def flagVar_def)

text \<open>
  C1 as stated puts the fetch before the confirmation in all three commands. On the
  sample cluster \<open>delete\<close> and \<open>transfer\<close> scan the answer before they fetch the
  snapshot.
\<close>

theorem confirm_precedes_fetch:
  "trace (volDelete sample_env False ''yes'' ''v1'') =
     [Stdout ''Delete volume [%v] (yes/no)[no]:'' [AString ''v1''], Scanln,
      CallGetVolumeSimpleInfo ''v1'', CallDeleteVolume ''v1'' (calcAuthKey ''u1''),
      Stdout ''Delete volume success.\<newline>'' []] \<and>
   \<not> after_first is_fetch is_confirm (trace (volDelete sample_env False ''yes'' ''v1'')) \<and>
   trace (volTransfer sample_env False False ''yes'' ''v1'' ''u2'') =
     [Stdout ''Transfer volume [%v] to user [%v] (yes/no)[no]:''
        [AString ''v1'', AString ''u2''],
      Scanln, CallGetVolumeSimpleInfo ''v1'', CallGetUserInfo ''u2'',
      CallTransferVol \<lparr>Volume = ''v1'', UserSrc = ''u1'', UserDst = ''u2'', Force = False\<rparr>] \<and>
   \<not> after_first is_fetch is_confirm
       (trace (volTransfer sample_env False False ''yes'' ''v1'' ''u2''))"
  by (simp add: volDelete_def delete_apply_def volTransfer_def deferred_def Let_def
        sample_env_def sample_vol_def)

section \<open>Properties of the node process\<close>

lemma main_reaches_serve:
  "modifyOpenFiles i = (t, None) \<Longrightarrow> \<not> in_configVersion i \<Longrightarrow>
   module_of (in_role i) = Some m \<Longrightarrow> in_initLog i = None \<Longrightarrow>
   \<exists>pre. main i = pre @ main_serve (in_start i)"
  by (simp add: main_def)

text \<open>
  C3, as the code has it. The signal interceptor is registered before \<open>Start\<close> is
  called, whatever \<open>Start\<close> returns. When \<open>Start\<close> fails, \<open>Sync\<close> is never called:
  the fatal log entry, the flush and the exit with code 1 follow in this order and end
  the run. When \<open>Start\<close> succeeds, \<open>Sync\<close> is called after it, then the flush and the
  exit with code 0.
\<close>

theorem main_serve_order:
  "precedes SignalNotify ServerStart (main_serve started) \<and>
   (started = Some m \<longrightarrow>
      ServerSync \<notin> set (main_serve started) \<and>
      precedes ServerStart
        (LogFatal [OStr ''Fatal: failed to start the baud storage daemon - '', OErr m])
        (main_serve started) \<and>
      precedes (LogFatal [OStr ''Fatal: failed to start the baud storage daemon - '', OErr m])
        LogFlush (main_serve started) \<and>
      precedes LogFlush (OsExit 1) (main_serve started) \<and>
      last (main_serve started) = OsExit 1) \<and>
   (started = None \<longrightarrow>
      precedes ServerStart ServerSync (main_serve started) \<and>
      precedes ServerSync LogFlush (main_serve started) \<and>
      precedes LogFlush (OsExit 0) (main_serve started) \<and>
      last (main_serve started) = OsExit 0)"
  by (auto simp: main_serve_def interceptSignal_def precedes_def)

theorem main_serve_order_witness:
  "precedes SignalNotify ServerStart (main_serve (Some ''boom'')) \<and>
   ServerSync \<notin> set (main_serve (Some ''boom'')) \<and>
   precedes LogFlush (OsExit 1) (main_serve (Some ''boom'')) \<and>
   last (main_serve (Some ''boom'')) = OsExit 1 \<and>
   precedes ServerStart ServerSync (main_serve None) \<and>
   last (main_serve None) = OsExit 0"
  using main_serve_order [of "Some ''boom''" "''boom''"] main_serve_order [of None "''boom''"]
  by simp

text \<open>
  C3 as stated registers the interceptor only after \<open>Start\<close> has succeeded. In the run
  where \<open>Start\<close> fails with \<open>boom\<close> the interceptor is registered all the same, and
  before \<open>Start\<close> is called.
\<close>

theorem interceptor_registered_when_start_fails:
  "main_serve (Some ''boom'') =
     [SignalNotify, LogInfo [OStr ''action[interceptSignal] register system signal.''],
      GoWaitSignal, ServerStart,
      Println [OStr ''Fatal: failed to start the baud storage daemon - '', OErr ''boom''],
      LogFatal [OStr ''Fatal: failed to start the baud storage daemon - '', OErr ''boom''],
      LogFlush, OsExit 1] \<and>
   SignalNotify \<in> set (main_serve (Some ''boom'')) \<and>
   \<not> after_first (\<lambda>x. x = ServerStart) (\<lambda>x. x = SignalNotify) (main_serve (Some ''boom''))"
  by (simp add: main_serve_def interceptSignal_def)

end
